theory Spec2Isabelle
  imports Main
begin

section \<open>CypherBeam: debounced translation dispatch and the particle pool\<close>

text \<open>
  A shallow embedding of \<^verbatim>\<open>gallery/cypher-beam/app.js\<close>. The script is single-threaded
  and event-driven, so it is modelled as a state record and one total function per
  source function, driven by a list of events (speech results, user input, timers that
  elapse, translation batches that settle).

  Strings are lists of code units below 256. Pure display that no later decision reads
  (the status line, the toast and its timer, the microphone button, the transcript pane,
  the random animation delay of a particle) is left out of the state, and so is
  \<open>handleEnd\<close>, which only restarts the recogniser.
\<close>

subsection \<open>Configuration\<close>

type_synonym lang = string

definition TRANSLATE_DEBOUNCE_MS :: nat where
  "TRANSLATE_DEBOUNCE_MS = 800"

definition MAX_EMOJIS :: int where
  "MAX_EMOJIS = 40"

definition EMOJI_FADE_AFTER :: nat where
  "EMOJI_FADE_AFTER = 30000"

definition ALL_LANGS :: "lang list" where
  "ALL_LANGS = [''de'', ''en'', ''fr'', ''es'']"

text \<open>
  The dictionaries live on \<^verbatim>\<open>window\<close> and are defined outside this file; they are
  parameters of the scanner. \<open>EMOJI_DICT\<close> is an association list in the key order
  that \<^verbatim>\<open>Object.keys\<close> enumerates.
\<close>

record dicts =
  EMOJI_DICT :: "(string \<times> string) list"
  POSITIVE_WORDS :: "string set"
  NEGATIVE_WORDS :: "string set"

subsection \<open>State\<close>

text \<open>
  A pending \<^verbatim>\<open>setTimeout\<close> is a handle, its delay and the closure it will run. The
  closures of the script are: the debounce callback of \<open>scheduleTranslation\<close> (capturing
  the text), the three stages of an emoji particle and the two of a text particle
  (capturing the span), and the restart of \<open>handleLangChange\<close>.
\<close>

datatype callback =
    TranslateCb string
  | FloatCb nat
  | FadeCb nat
  | RemoveCb nat
  | TextFadeCb nat
  | RestartCb

record timer =
  handle :: nat
  delay :: nat
  callback :: callback

text \<open>
  Span objects are kept in a store, indexed by creation order, because a timer closure
  holds its span after the span has left the document. \<open>emojiZone\<close> is the child list of
  the particle zone: \<^verbatim>\<open>span.parentNode\<close> is truthy exactly for the spans listed there.
\<close>

record span =
  classes :: "string list"
  textContent :: string

text \<open>One call of \<open>translateAll\<close>: the requests it issued and whether they are still in flight.\<close>

record batch =
  btext :: string
  bfrom :: lang
  btargets :: "lang list"
  inflight :: bool

record state =
  isListening :: bool
  startThrows :: bool
  langSelect :: lang
  sourceLang :: lang
  finalTranscript :: string
  lastTranslatedText :: string
  translateTimer :: "nat option"
  emojiCount :: int
  positiveScore :: int
  negativeScore :: int
  spans :: "span list"
  emojiZone :: "nat list"
  zoneClasses :: "string list"
  translationCards :: "lang \<Rightarrow> string option"
  timers :: "timer list"
  nextTimer :: nat
  batches :: "batch list"

text \<open>
  \<open>startThrows\<close> is the one input of the browser that the script cannot see: whether
  \<^verbatim>\<open>recognition.start()\<close> would throw. \<open>translationCards l\<close> is the text of the element
  that \<^verbatim>\<open>translationCards[l]\<close> refers to, \<open>None\<close> where the object has no such key.
\<close>

subsection \<open>Timers and class lists\<close>

definition setTimeout :: "callback \<Rightarrow> nat \<Rightarrow> state \<Rightarrow> state" where
  "setTimeout cb ms s =
     s\<lparr>timers := timers s @ [\<lparr>handle = nextTimer s, delay = ms, callback = cb\<rparr>],
       nextTimer := Suc (nextTimer s)\<rparr>"

definition clearTimeout :: "nat option \<Rightarrow> state \<Rightarrow> state" where
  "clearTimeout h s =
     (case h of
        None \<Rightarrow> s
      | Some k \<Rightarrow> s\<lparr>timers := filter (\<lambda>t. handle t \<noteq> k) (timers s)\<rparr>)"

definition class_add :: "string \<Rightarrow> string list \<Rightarrow> string list" where
  "class_add c cs = (if c \<in> set cs then cs else cs @ [c])"

definition class_remove :: "string \<Rightarrow> string list \<Rightarrow> string list" where
  "class_remove c cs = removeAll c cs"

definition attached :: "nat \<Rightarrow> state \<Rightarrow> bool" where
  "attached i s = (i \<in> set (emojiZone s))"

definition update_span_classes :: "nat \<Rightarrow> (string list \<Rightarrow> string list) \<Rightarrow> state \<Rightarrow> state" where
  "update_span_classes i f s =
     s\<lparr>spans := (spans s)[i := (spans s ! i)\<lparr>classes := f (classes (spans s ! i))\<rparr>]\<rparr>"

subsection \<open>Translation\<close>

definition targetLangs :: "state \<Rightarrow> lang list" where
  "targetLangs s = filter (\<lambda>l. l \<noteq> sourceLang s) ALL_LANGS"

definition updateTranslationCards :: "state \<Rightarrow> state" where
  "updateTranslationCards s =
     s\<lparr>translationCards :=
         fold (\<lambda>l m. m(l \<mapsto> [])) (targetLangs s) (translationCards s)\<rparr>"

definition trimmed :: "string \<Rightarrow> string" where
  "trimmed text = (if length text > 200 then drop (length text - 200) text else text)"

definition translateAll :: "string \<Rightarrow> state \<Rightarrow> state" where
  "translateAll text s =
     s\<lparr>batches := batches s @
        [\<lparr>btext = trimmed text, bfrom = sourceLang s, btargets = targetLangs s,
          inflight = True\<rparr>]\<rparr>"

definition translateCallback :: "string \<Rightarrow> state \<Rightarrow> state" where
  "translateCallback text s =
     (if text \<noteq> [] \<and> text \<noteq> lastTranslatedText s
      then translateAll text (s\<lparr>lastTranslatedText := text\<rparr>)
      else s)"

definition scheduleTranslation :: "string \<Rightarrow> state \<Rightarrow> state" where
  "scheduleTranslation text s =
     (let s1 = clearTimeout (translateTimer s) s
      in (setTimeout (TranslateCb text) TRANSLATE_DEBOUNCE_MS s1)
           \<lparr>translateTimer := Some (nextTimer s1)\<rparr>)"

text \<open>
  What the translation service answers to one request: the fetch rejects, or it resolves
  with a status and a body, which is not JSON, or JSON with its \<open>responseStatus\<close> and the
  \<open>responseData.translatedText\<close> it holds (\<open>None\<close> when either level is missing).
\<close>

datatype body = NotJson | Json int "string option"

datatype response = NetworkError | Http nat body

datatype 'a settled = Fulfilled 'a | Rejected string

text \<open>The \<^verbatim>\<open>try\<close> block of \<open>translateText\<close>: \<open>Inl\<close> is a thrown error.\<close>

definition translateText_try :: "response \<Rightarrow> string + string option" where
  "translateText_try r =
     (case r of
        NetworkError \<Rightarrow> Inl ''fetch''
      | Http st b \<Rightarrow>
          if \<not> (200 \<le> st \<and> st \<le> 299) then Inl ''HTTP''
          else (case b of
                  NotJson \<Rightarrow> Inl ''json''
                | Json rs tt \<Rightarrow>
                    if rs = 200 \<and> tt \<noteq> None \<and> tt \<noteq> Some [] then Inr tt else Inr None))"

definition translateText :: "response \<Rightarrow> string option settled" where
  "translateText r =
     (case translateText_try r of
        Inl err \<Rightarrow> Fulfilled None
      | Inr v \<Rightarrow> Fulfilled v)"

text \<open>The \<^verbatim>\<open>forEach\<close> after the all-settled join, one step per target.\<close>

definition showResult :: "lang \<times> string option settled \<Rightarrow> (lang \<Rightarrow> string option) \<Rightarrow> (lang \<Rightarrow> string option)" where
  "showResult p m =
     (case m (fst p) of
        None \<Rightarrow> m
      | Some old \<Rightarrow>
          (case snd p of
             Fulfilled (Some v) \<Rightarrow> if v \<noteq> [] then m(fst p \<mapsto> v) else m
           | Fulfilled None \<Rightarrow> m
           | Rejected err \<Rightarrow> m))"

definition showResults :: "lang list \<Rightarrow> string option settled list \<Rightarrow> (lang \<Rightarrow> string option) \<Rightarrow> (lang \<Rightarrow> string option)" where
  "showResults ls rs m = fold showResult (zip ls rs) m"

definition settleBatch :: "nat \<Rightarrow> response list \<Rightarrow> state \<Rightarrow> state" where
  "settleBatch k rs s =
     (if k < length (batches s) \<and> inflight (batches s ! k)
         \<and> length rs = length (btargets (batches s ! k))
      then s\<lparr>translationCards :=
               showResults (btargets (batches s ! k)) (map translateText rs) (translationCards s),
             batches := (batches s)[k := (batches s ! k)\<lparr>inflight := False\<rparr>]\<rparr>
      else s)"

text \<open>
  What the \<^verbatim>\<open>forEach\<close> of \<open>translateAll\<close> leaves in a slot that showed \<open>old\<close>, given
  the settled result of that slot's request.
\<close>

definition shown :: "string \<Rightarrow> string option settled \<Rightarrow> string" where
  "shown old r =
     (case r of
        Fulfilled (Some v) \<Rightarrow> if v \<noteq> [] then v else old
      | Fulfilled None \<Rightarrow> old
      | Rejected err \<Rightarrow> old)"

subsection \<open>Particles\<close>

definition querySelector :: "state \<Rightarrow> nat option" where
  "querySelector s =
     find (\<lambda>i. i < length (spans s) \<and> ''emoji-particle'' \<in> set (classes (spans s ! i)))
       (emojiZone s)"

definition removeOldestEmoji :: "state \<Rightarrow> state" where
  "removeOldestEmoji s =
     (case querySelector s of
        None \<Rightarrow> s
      | Some first \<Rightarrow>
          s\<lparr>emojiZone := remove1 first (emojiZone s), emojiCount := emojiCount s - 1\<rparr>)"

definition appendSpan :: "span \<Rightarrow> state \<Rightarrow> state" where
  "appendSpan sp s =
     s\<lparr>spans := spans s @ [sp], emojiZone := emojiZone s @ [length (spans s)],
       emojiCount := emojiCount s + 1\<rparr>"

definition addEmojiParticle :: "string \<Rightarrow> state \<Rightarrow> state" where
  "addEmojiParticle emoji s =
     (let s1 = (if emojiCount s \<ge> MAX_EMOJIS then removeOldestEmoji s else s);
          i = length (spans s1);
          s2 = appendSpan \<lparr>classes = [''emoji-particle''], textContent = emoji\<rparr> s1;
          s3 = setTimeout (FloatCb i) 600 s2
      in setTimeout (FadeCb i) EMOJI_FADE_AFTER s3)"

definition addTextParticle :: "string \<Rightarrow> state \<Rightarrow> state" where
  "addTextParticle word s =
     (if emojiCount s \<ge> MAX_EMOJIS then s
      else (let i = length (spans s);
                s1 = appendSpan \<lparr>classes = [''emoji-particle'', ''text-particle''],
                                 textContent = word\<rparr> s
            in setTimeout (TextFadeCb i) 10000 s1))"

definition clearEmojis :: "state \<Rightarrow> state" where
  "clearEmojis s =
     s\<lparr>emojiZone := [], emojiCount := 0, positiveScore := 0, negativeScore := 0,
       zoneClasses := class_remove ''mood-negative'' (class_remove ''mood-positive'' (zoneClasses s))\<rparr>"

definition updateMood :: "state \<Rightarrow> state" where
  "updateMood s =
     (let diff = positiveScore s - negativeScore s;
          cs = class_remove ''mood-negative'' (class_remove ''mood-positive'' (zoneClasses s))
      in if diff > 2 then s\<lparr>zoneClasses := class_add ''mood-positive'' cs\<rparr>
         else if diff < - 2 then s\<lparr>zoneClasses := class_add ''mood-negative'' cs\<rparr>
         else s\<lparr>zoneClasses := cs\<rparr>)"

text \<open>The bodies of the particle timer callbacks, each behind its \<^verbatim>\<open>span.parentNode\<close> test.\<close>

definition floatCallback :: "nat \<Rightarrow> state \<Rightarrow> state" where
  "floatCallback i s =
     (if attached i s then update_span_classes i (class_add ''floating'') s else s)"

definition fadeCallback :: "nat \<Rightarrow> state \<Rightarrow> state" where
  "fadeCallback i s =
     (if attached i s
      then setTimeout (RemoveCb i) 1000
             (update_span_classes i (class_add ''fading'' \<circ> class_remove ''floating'') s)
      else s)"

definition textFadeCallback :: "nat \<Rightarrow> state \<Rightarrow> state" where
  "textFadeCallback i s =
     (if attached i s
      then setTimeout (RemoveCb i) 1000 (update_span_classes i (class_add ''fading'') s)
      else s)"

definition removeCallback :: "nat \<Rightarrow> state \<Rightarrow> state" where
  "removeCallback i s =
     (if attached i s
      then s\<lparr>emojiZone := remove1 i (emojiZone s), emojiCount := emojiCount s - 1\<rparr>
      else s)"

subsection \<open>The keyword and sentiment scanner\<close>

definition toLowerChar :: "char \<Rightarrow> char" where
  "toLowerChar c =
     (let n = (of_char c :: nat)
      in if (65 \<le> n \<and> n \<le> 90) \<or> (192 \<le> n \<and> n \<le> 222 \<and> n \<noteq> 215)
         then char_of (n + 32) else c)"

definition toLowerCase :: "string \<Rightarrow> string" where
  "toLowerCase text = map toLowerChar text"

definition is_punct :: "char \<Rightarrow> bool" where
  "is_punct c = (c \<in> set ''.,!?;:()'' \<or> c = CHR 0x27 \<or> c = CHR 0x22)"

definition is_space :: "char \<Rightarrow> bool" where
  "is_space c = ((of_char c :: nat) \<in> {9, 10, 11, 12, 13, 32, 160})"

text \<open>
  \<^verbatim>\<open>split(/\s+/)\<close>: a run of white space separates two pieces, and a run at either end
  leaves an empty piece there. \<open>cur\<close> is the piece being read, reversed; \<open>insep\<close> says
  that the last character was white space.
\<close>

fun split_ws :: "bool \<Rightarrow> string \<Rightarrow> string \<Rightarrow> string list" where
  "split_ws insep cur [] = [rev cur]"
| "split_ws insep cur (c # cs) =
     (if is_space c
      then (if insep then split_ws True cur cs else rev cur # split_ws True [] cs)
      else split_ws False (c # cur) cs)"

definition words_of :: "string \<Rightarrow> string list" where
  "words_of text =
     filter (\<lambda>w. length w > 1)
       (split_ws False [] (filter (\<lambda>c. \<not> is_punct c) (toLowerCase text)))"

fun starts_with :: "string \<Rightarrow> string \<Rightarrow> bool" where
  "starts_with xs [] = True"
| "starts_with [] (p # ps) = False"
| "starts_with (x # xs) (p # ps) = (x = p \<and> starts_with xs ps)"

fun includes_str :: "string \<Rightarrow> string \<Rightarrow> bool" where
  "includes_str [] p = (p = [])"
| "includes_str (x # xs) p = (starts_with (x # xs) p \<or> includes_str xs p)"

definition combos :: "dicts \<Rightarrow> string list" where
  "combos D = filter (\<lambda>k. CHR '' '' \<in> set k) (map fst (EMOJI_DICT D))"

definition scanCombo :: "dicts \<Rightarrow> string \<Rightarrow> string \<Rightarrow> state \<Rightarrow> state" where
  "scanCombo D lowerText combo s =
     (if includes_str lowerText combo
      then (case map_of (EMOJI_DICT D) combo of
              Some emoji \<Rightarrow> addEmojiParticle emoji s
            | None \<Rightarrow> s)
      else s)"

definition scanWord :: "dicts \<Rightarrow> string \<Rightarrow> state \<Rightarrow> state" where
  "scanWord D word s =
     (let s1 = (if word \<in> POSITIVE_WORDS D then s\<lparr>positiveScore := positiveScore s + 1\<rparr> else s);
          s2 = (if word \<in> NEGATIVE_WORDS D then s1\<lparr>negativeScore := negativeScore s1 + 1\<rparr> else s1)
      in (case map_of (EMOJI_DICT D) word of
            Some emoji \<Rightarrow>
              if emoji \<noteq> [] then addEmojiParticle emoji s2
              else if length word > 3 then addTextParticle word s2 else s2
          | None \<Rightarrow> if length word > 3 then addTextParticle word s2 else s2))"

definition processWordsForEmoji :: "dicts \<Rightarrow> string \<Rightarrow> state \<Rightarrow> state" where
  "processWordsForEmoji D text s =
     updateMood
       (fold (scanWord D) (words_of text)
          (fold (scanCombo D (toLowerCase text)) (combos D) s))"

subsection \<open>Event handlers\<close>

definition startListening :: "state \<Rightarrow> state" where
  "startListening s =
     (let s1 = s\<lparr>sourceLang := langSelect s\<rparr>
      in if langSelect s \<notin> set ALL_LANGS then s1
         else if startThrows s then s1
         else updateTranslationCards (s1\<lparr>isListening := True\<rparr>))"

definition stopListening :: "state \<Rightarrow> state" where
  "stopListening s = s\<lparr>isListening := False\<rparr>"

definition toggleMic :: "state \<Rightarrow> state" where
  "toggleMic s = (if isListening s then stopListening s else startListening s)"

text \<open>
  A recognition event is the list of its results from \<^verbatim>\<open>resultIndex\<close> on, each a
  transcript and its \<^verbatim>\<open>isFinal\<close> flag. \<open>newFinalText\<close> is what the loop of
  \<open>handleResult\<close> collects from the final ones.
\<close>

definition newFinalText :: "(string \<times> bool) list \<Rightarrow> string" where
  "newFinalText results = concat (map fst (filter snd results))"

definition handleResult :: "dicts \<Rightarrow> (string \<times> bool) list \<Rightarrow> state \<Rightarrow> state" where
  "handleResult D results s =
     (if newFinalText results \<noteq> []
      then (let s1 = s\<lparr>finalTranscript := finalTranscript s @ newFinalText results\<rparr>;
                s2 = processWordsForEmoji D (newFinalText results) s1
            in scheduleTranslation (finalTranscript s2) s2)
      else s)"

definition handleError :: "string \<Rightarrow> state \<Rightarrow> state" where
  "handleError err s = (if err = ''not-allowed'' then stopListening s else s)"

definition handleLangChange :: "state \<Rightarrow> state" where
  "handleLangChange s =
     (let wasListening = isListening s;
          s1 = updateTranslationCards (s\<lparr>sourceLang := langSelect s\<rparr>);
          s2 = clearEmojis (s1\<lparr>finalTranscript := [], lastTranslatedText := []\<rparr>)
      in if wasListening then setTimeout RestartCb 200 s2 else s2)"

definition clearKey :: "state \<Rightarrow> state" where
  "clearKey s =
     (let s1 = clearEmojis (s\<lparr>finalTranscript := [], lastTranslatedText := []\<rparr>)
      in s1\<lparr>translationCards := (\<lambda>l. map_option (\<lambda>old. []) (translationCards s1 l))\<rparr>)"

definition run_callback :: "callback \<Rightarrow> state \<Rightarrow> state" where
  "run_callback cb s =
     (case cb of
        TranslateCb text \<Rightarrow> translateCallback text s
      | FloatCb i \<Rightarrow> floatCallback i s
      | FadeCb i \<Rightarrow> fadeCallback i s
      | RemoveCb i \<Rightarrow> removeCallback i s
      | TextFadeCb i \<Rightarrow> textFadeCallback i s
      | RestartCb \<Rightarrow> startListening s)"

definition fire :: "nat \<Rightarrow> state \<Rightarrow> state" where
  "fire h s =
     (case find (\<lambda>t. handle t = h) (timers s) of
        None \<Rightarrow> s
      | Some t \<Rightarrow> run_callback (callback t) (s\<lparr>timers := filter (\<lambda>u. handle u \<noteq> h) (timers s)\<rparr>))"

text \<open>
  The events the page can receive. \<open>Fire h\<close> is the timer with handle \<open>h\<close> elapsing,
  \<open>Settled k rs\<close> the all-settled join of batch \<open>k\<close> completing with one answer per
  target, \<open>Engine b\<close> the speech engine becoming unable (or able again) to start.
\<close>

datatype event =
    Result "(string \<times> bool) list"
  | SpeechError string
  | MicClick
  | Escape
  | LangChange lang
  | KeyC
  | Fire nat
  | Settled nat "response list"
  | Engine bool

definition step :: "dicts \<Rightarrow> event \<Rightarrow> state \<Rightarrow> state" where
  "step D ev s =
     (case ev of
        Result results \<Rightarrow> handleResult D results s
      | SpeechError err \<Rightarrow> handleError err s
      | MicClick \<Rightarrow> toggleMic s
      | Escape \<Rightarrow> (if isListening s then stopListening s else s)
      | LangChange l \<Rightarrow> handleLangChange (s\<lparr>langSelect := l\<rparr>)
      | KeyC \<Rightarrow> clearKey s
      | Fire h \<Rightarrow> fire h s
      | Settled k rs \<Rightarrow> settleBatch k rs s
      | Engine b \<Rightarrow> s\<lparr>startThrows := b\<rparr>)"

definition run :: "dicts \<Rightarrow> event list \<Rightarrow> state \<Rightarrow> state" where
  "run D evs s = fold (step D) evs s"

text \<open>
  The page after a successful \<open>init\<close>: the declared initial values of the script's
  variables, an empty particle zone, and the cards that \<open>updateTranslationCards\<close> builds
  for source language \<^verbatim>\<open>de\<close>. \<open>sel\<close> is the value the language select starts with.
\<close>

definition init_state :: "lang \<Rightarrow> state" where
  "init_state sel =
     updateTranslationCards
       \<lparr>isListening = False, startThrows = False, langSelect = sel, sourceLang = ''de'',
        finalTranscript = [], lastTranslatedText = [], translateTimer = None,
        emojiCount = 0, positiveScore = 0, negativeScore = 0,
        spans = [], emojiZone = [], zoneClasses = [],
        translationCards = (\<lambda>l. None), timers = [], nextTimer = 0, batches = []\<rparr>"

subsection \<open>Invariants of the reachable states\<close>

text \<open>
  The particle pool: the counter is the number of spans in the zone, no span is listed
  twice, every listed span exists and carries the class that \<open>removeOldestEmoji\<close> selects
  on, and the counter is within the cap.
\<close>

definition zone_inv :: "state \<Rightarrow> bool" where
  "zone_inv s \<longleftrightarrow>
     emojiCount s = int (length (emojiZone s)) \<and>
     distinct (emojiZone s) \<and>
     list_all (\<lambda>i. i < length (spans s) \<and> ''emoji-particle'' \<in> set (classes (spans s ! i)))
       (emojiZone s) \<and>
     emojiCount s \<le> MAX_EMOJIS"

definition is_translate :: "callback \<Rightarrow> bool" where
  "is_translate cb = (case cb of TranslateCb text \<Rightarrow> True | _ \<Rightarrow> False)"

definition pending_translations :: "state \<Rightarrow> timer list" where
  "pending_translations s = filter (\<lambda>t. is_translate (callback t)) (timers s)"

text \<open>
  The timer table: handles are unique and below the next handle, and a pending debounce
  timer is always the one \<open>translateTimer\<close> holds.
\<close>

definition timer_inv :: "state \<Rightarrow> bool" where
  "timer_inv s \<longleftrightarrow>
     list_all (\<lambda>t. handle t < nextTimer s) (timers s) \<and>
     distinct (map handle (timers s)) \<and>
     list_all (\<lambda>t. translateTimer s = Some (handle t)) (pending_translations s)"

text \<open>What the translation dispatcher reads and writes, as one value.\<close>

definition dispatcher :: "state \<Rightarrow> string \<times> lang \<times> string \<times> nat option \<times> timer list \<times> batch list" where
  "dispatcher s =
     (lastTranslatedText s, sourceLang s, finalTranscript s, translateTimer s,
      pending_translations s, batches s)"

definition batch_inv :: "state \<Rightarrow> bool" where
  "batch_inv s \<longleftrightarrow> list_all (\<lambda>b. distinct (btargets b)) (batches s)"

definition particle_of :: "callback \<Rightarrow> nat option" where
  "particle_of cb =
     (case cb of
        FloatCb i \<Rightarrow> Some i
      | FadeCb i \<Rightarrow> Some i
      | RemoveCb i \<Rightarrow> Some i
      | TextFadeCb i \<Rightarrow> Some i
      | _ \<Rightarrow> None)"

subsection \<open>Concrete scenarios\<close>

text \<open>Dictionaries with no entry at all, and a small German dictionary.\<close>

definition no_dicts :: dicts where
  "no_dicts = \<lparr>EMOJI_DICT = [], POSITIVE_WORDS = {}, NEGATIVE_WORDS = {}\<rparr>"

definition liebe_dicts :: dicts where
  "liebe_dicts =
     \<lparr>EMOJI_DICT = [(''liebe'', ''<3''), (''gute nacht'', ''zzz'')],
      POSITIVE_WORDS = {''liebe'', ''gut''}, NEGATIVE_WORDS = {''hass''}\<rparr>"

text \<open>The particle zone after forty emoji particles were spawned on a fresh page.\<close>

definition full_zone :: state where
  "full_zone = fold addEmojiParticle (replicate 40 ''+'') (init_state ''de'')"

text \<open>
  A fresh page hears \<^verbatim>\<open>abc\<close>; the user presses C before the debounce timer (handle 0)
  elapses; the timer elapses; the page hears \<^verbatim>\<open>abc\<close> again.
\<close>

definition heard_again :: state where
  "heard_again =
     run no_dicts [Result [(''abc'', True)], KeyC, Fire 0, Result [(''abc'', True)]]
       (init_state ''de'')"

text \<open>
  A fresh page hears \<^verbatim>\<open>hallo welt\<close> (two text particles, timers 0 and 1, and the
  debounce timer 2). Before the debounce timer elapses the user presses C, or switches
  the source language to English.
\<close>

definition heard_hallo :: state where
  "heard_hallo = run no_dicts [Result [(''hallo welt'', True)]] (init_state ''de'')"

definition cleared_early :: state where
  "cleared_early = step no_dicts KeyC heard_hallo"

definition switched_early :: state where
  "switched_early = step no_dicts (LangChange ''en'') heard_hallo"

text \<open>The requests of one batch to English, French and Spanish: English fails, French succeeds.\<close>

definition en_fails_fr_succeeds :: "response list" where
  "en_fails_fr_succeeds =
     [NetworkError, Http 200 (Json 200 (Some ''hello world'')), Http 500 NotJson]"

text \<open>The same page when the debounce timer elapses undisturbed and the batch is in flight.\<close>

definition dispatched_hallo :: state where
  "dispatched_hallo = step no_dicts (Fire 2) heard_hallo"

section \<open>The particle pool\<close>

lemma zone_inv_timers [simp]: "zone_inv (s\<lparr>timers := ts\<rparr>) = zone_inv s"
  and zone_inv_nextTimer [simp]: "zone_inv (s\<lparr>nextTimer := n\<rparr>) = zone_inv s"
  and zone_inv_translateTimer [simp]: "zone_inv (s\<lparr>translateTimer := h\<rparr>) = zone_inv s"
  and zone_inv_batches [simp]: "zone_inv (s\<lparr>batches := bs\<rparr>) = zone_inv s"
  and zone_inv_cards [simp]: "zone_inv (s\<lparr>translationCards := m\<rparr>) = zone_inv s"
  and zone_inv_last [simp]: "zone_inv (s\<lparr>lastTranslatedText := t\<rparr>) = zone_inv s"
  and zone_inv_final [simp]: "zone_inv (s\<lparr>finalTranscript := t\<rparr>) = zone_inv s"
  and zone_inv_source [simp]: "zone_inv (s\<lparr>sourceLang := l\<rparr>) = zone_inv s"
  and zone_inv_select [simp]: "zone_inv (s\<lparr>langSelect := l\<rparr>) = zone_inv s"
  and zone_inv_listening [simp]: "zone_inv (s\<lparr>isListening := b\<rparr>) = zone_inv s"
  and zone_inv_throws [simp]: "zone_inv (s\<lparr>startThrows := b\<rparr>) = zone_inv s"
  and zone_inv_pos [simp]: "zone_inv (s\<lparr>positiveScore := p\<rparr>) = zone_inv s"
  and zone_inv_neg [simp]: "zone_inv (s\<lparr>negativeScore := p\<rparr>) = zone_inv s"
  and zone_inv_zoneClasses [simp]: "zone_inv (s\<lparr>zoneClasses := cs\<rparr>) = zone_inv s"
  by (simp_all add: zone_inv_def)

lemma zone_inv_setTimeout [simp]: "zone_inv (setTimeout cb ms s) = zone_inv s"
  by (simp add: setTimeout_def)

lemma zone_inv_clearTimeout [simp]: "zone_inv (clearTimeout h s) = zone_inv s"
  by (simp add: clearTimeout_def split: option.split)

lemma zone_inv_updateTranslationCards [simp]: "zone_inv (updateTranslationCards s) = zone_inv s"
  by (simp add: updateTranslationCards_def)

lemma zone_inv_updateMood [simp]: "zone_inv (updateMood s) = zone_inv s"
  by (simp add: updateMood_def Let_def)

lemma zone_inv_clearEmojis: "zone_inv (clearEmojis s)"
  by (simp add: clearEmojis_def zone_inv_def MAX_EMOJIS_def)

text \<open>In a reachable state the selector of \<open>removeOldestEmoji\<close> finds the first child.\<close>

lemma querySelector_first:
  "zone_inv s \<Longrightarrow> querySelector s = (case emojiZone s of [] \<Rightarrow> None | i # is \<Rightarrow> Some i)"
  by (cases "emojiZone s") (simp_all add: querySelector_def zone_inv_def)

lemma removeOldestEmoji_first:
  "zone_inv s \<Longrightarrow> emojiZone s \<noteq> [] \<Longrightarrow>
   removeOldestEmoji s = s\<lparr>emojiZone := tl (emojiZone s), emojiCount := emojiCount s - 1\<rparr>"
  by (cases "emojiZone s") (simp_all add: removeOldestEmoji_def querySelector_first)

lemma zone_inv_removeOldestEmoji: "zone_inv s \<Longrightarrow> zone_inv (removeOldestEmoji s)"
  by (cases "emojiZone s")
     (simp_all add: removeOldestEmoji_def querySelector_first zone_inv_def)

lemma emojiCount_removeOldestEmoji:
  "zone_inv s \<Longrightarrow> emojiCount s \<ge> MAX_EMOJIS \<Longrightarrow>
   emojiCount (removeOldestEmoji s) = emojiCount s - 1"
  by (cases "emojiZone s")
     (simp_all add: removeOldestEmoji_def querySelector_first zone_inv_def MAX_EMOJIS_def)

lemma zone_inv_appendSpan:
  assumes "zone_inv s" and "emojiCount s < MAX_EMOJIS" and "''emoji-particle'' \<in> set (classes sp)"
  shows "zone_inv (appendSpan sp s)"
proof -
  have old: "list_all (\<lambda>i. i < length (spans s)) (emojiZone s)"
    using assms(1) by (simp add: zone_inv_def list_all_iff)
  then have fresh: "length (spans s) \<notin> set (emojiZone s)"
    by (auto simp: list_all_iff)
  have "list_all (\<lambda>i. i < Suc (length (spans s)) \<and>
           ''emoji-particle'' \<in> set (classes ((spans s @ [sp]) ! i))) (emojiZone s)"
    using assms(1) by (auto simp: zone_inv_def list_all_iff nth_append)
  with assms fresh show ?thesis
    by (simp add: appendSpan_def zone_inv_def)
qed

lemma zone_inv_addEmojiParticle: "zone_inv s \<Longrightarrow> zone_inv (addEmojiParticle e s)"
proof -
  assume inv: "zone_inv s"
  let ?s1 = "if emojiCount s \<ge> MAX_EMOJIS then removeOldestEmoji s else s"
  have 1: "zone_inv ?s1" using inv by (simp add: zone_inv_removeOldestEmoji)
  have 2: "emojiCount ?s1 < MAX_EMOJIS"
    using inv emojiCount_removeOldestEmoji [OF inv] by (auto simp: zone_inv_def)
  show ?thesis
    unfolding addEmojiParticle_def Let_def
    using zone_inv_appendSpan [OF 1 2] by simp
qed

lemma zone_inv_addTextParticle: "zone_inv s \<Longrightarrow> zone_inv (addTextParticle w s)"
  by (simp add: addTextParticle_def Let_def zone_inv_appendSpan)

lemma zone_inv_update_span_classes:
  assumes "zone_inv s"
    and "\<And>cs. ''emoji-particle'' \<in> set cs \<Longrightarrow> ''emoji-particle'' \<in> set (f cs)"
  shows "zone_inv (update_span_classes i f s)"
proof -
  have "''emoji-particle'' \<in> set (classes
          ((spans s)[i := (spans s ! i)\<lparr>classes := f (classes (spans s ! i))\<rparr>] ! j))"
    if "j \<in> set (emojiZone s)" for j
  proof (cases "j = i")
    case True
    with that assms show ?thesis by (simp add: zone_inv_def list_all_iff)
  next
    case False
    with that assms(1) show ?thesis by (simp add: zone_inv_def list_all_iff)
  qed
  with assms(1) show ?thesis
    by (simp add: zone_inv_def update_span_classes_def list_all_iff)
qed

lemma zone_inv_remove1:
  "zone_inv s \<Longrightarrow> i \<in> set (emojiZone s) \<Longrightarrow>
   zone_inv (s\<lparr>emojiZone := remove1 i (emojiZone s), emojiCount := emojiCount s - 1\<rparr>)"
  by (auto simp: zone_inv_def list_all_iff length_remove1 in_set_conv_nth
           dest: notin_set_remove1)

lemma zone_inv_floatCallback: "zone_inv s \<Longrightarrow> zone_inv (floatCallback i s)"
  by (simp add: floatCallback_def zone_inv_update_span_classes class_add_def)

lemma zone_inv_fadeCallback: "zone_inv s \<Longrightarrow> zone_inv (fadeCallback i s)"
  by (simp add: fadeCallback_def zone_inv_update_span_classes class_add_def class_remove_def)

lemma zone_inv_textFadeCallback: "zone_inv s \<Longrightarrow> zone_inv (textFadeCallback i s)"
  by (simp add: textFadeCallback_def zone_inv_update_span_classes class_add_def)

lemma zone_inv_removeCallback: "zone_inv s \<Longrightarrow> zone_inv (removeCallback i s)"
  by (simp add: removeCallback_def attached_def zone_inv_remove1)

lemma zone_inv_translateCallback: "zone_inv (translateCallback text s) = zone_inv s"
  by (simp add: translateCallback_def translateAll_def)

lemma zone_inv_startListening: "zone_inv (startListening s) = zone_inv s"
  by (simp add: startListening_def Let_def)

lemma zone_inv_run_callback: "zone_inv s \<Longrightarrow> zone_inv (run_callback cb s)"
  by (cases cb)
     (simp_all add: run_callback_def zone_inv_floatCallback zone_inv_fadeCallback
        zone_inv_textFadeCallback zone_inv_removeCallback zone_inv_translateCallback
        zone_inv_startListening)

lemma zone_inv_fire: "zone_inv s \<Longrightarrow> zone_inv (fire h s)"
  by (simp add: fire_def zone_inv_run_callback split: option.split)

lemma zone_inv_scanCombo: "zone_inv s \<Longrightarrow> zone_inv (scanCombo D t c s)"
  by (simp add: scanCombo_def zone_inv_addEmojiParticle split: option.split)

lemma zone_inv_scanWord: "zone_inv s \<Longrightarrow> zone_inv (scanWord D w s)"
  by (simp add: scanWord_def Let_def zone_inv_addEmojiParticle zone_inv_addTextParticle
        split: option.split)

lemma zone_inv_fold:
  "(\<And>x s. zone_inv s \<Longrightarrow> zone_inv (f x s)) \<Longrightarrow> zone_inv s \<Longrightarrow> zone_inv (fold f xs s)"
  by (induction xs arbitrary: s) simp_all

lemma zone_inv_processWordsForEmoji: "zone_inv s \<Longrightarrow> zone_inv (processWordsForEmoji D text s)"
  by (simp add: processWordsForEmoji_def zone_inv_fold zone_inv_scanWord zone_inv_scanCombo)

lemma zone_inv_scheduleTranslation: "zone_inv (scheduleTranslation text s) = zone_inv s"
  by (simp add: scheduleTranslation_def Let_def)

lemma zone_inv_handleResult: "zone_inv s \<Longrightarrow> zone_inv (handleResult D rs s)"
  by (simp add: handleResult_def Let_def zone_inv_scheduleTranslation zone_inv_processWordsForEmoji)

lemma zone_inv_handleLangChange: "zone_inv (handleLangChange s)"
  by (simp add: handleLangChange_def Let_def zone_inv_clearEmojis)

lemma zone_inv_clearKey: "zone_inv (clearKey s)"
  by (simp add: clearKey_def Let_def zone_inv_clearEmojis)

lemma zone_inv_settleBatch: "zone_inv (settleBatch k rs s) = zone_inv s"
  by (simp add: settleBatch_def)

lemma zone_inv_step: "zone_inv s \<Longrightarrow> zone_inv (step D ev s)"
  by (cases ev)
     (simp_all add: step_def zone_inv_handleResult handleError_def stopListening_def
        toggleMic_def zone_inv_startListening zone_inv_handleLangChange zone_inv_clearKey
        zone_inv_fire zone_inv_settleBatch)

lemma zone_inv_init: "zone_inv (init_state sel)"
  unfolding init_state_def zone_inv_updateTranslationCards
  by (simp add: zone_inv_def MAX_EMOJIS_def)

lemma zone_inv_run: "zone_inv s \<Longrightarrow> zone_inv (run D evs s)"
  unfolding run_def by (induction evs arbitrary: s) (simp_all add: zone_inv_step)

section \<open>The debounce timer\<close>

lemma timer_inv_frame [simp]:
  "timer_inv (s\<lparr>batches := bs\<rparr>) = timer_inv s"
  "timer_inv (s\<lparr>translationCards := m\<rparr>) = timer_inv s"
  "timer_inv (s\<lparr>lastTranslatedText := t\<rparr>) = timer_inv s"
  "timer_inv (s\<lparr>finalTranscript := t\<rparr>) = timer_inv s"
  "timer_inv (s\<lparr>sourceLang := l\<rparr>) = timer_inv s"
  "timer_inv (s\<lparr>langSelect := l\<rparr>) = timer_inv s"
  "timer_inv (s\<lparr>isListening := b\<rparr>) = timer_inv s"
  "timer_inv (s\<lparr>startThrows := b\<rparr>) = timer_inv s"
  "timer_inv (s\<lparr>positiveScore := p\<rparr>) = timer_inv s"
  "timer_inv (s\<lparr>negativeScore := p\<rparr>) = timer_inv s"
  "timer_inv (s\<lparr>zoneClasses := cs\<rparr>) = timer_inv s"
  "timer_inv (s\<lparr>spans := sps\<rparr>) = timer_inv s"
  "timer_inv (s\<lparr>emojiZone := z\<rparr>) = timer_inv s"
  "timer_inv (s\<lparr>emojiCount := c\<rparr>) = timer_inv s"
  by (simp_all add: timer_inv_def pending_translations_def)

lemma timer_inv_setTimeout:
  assumes "timer_inv s" and "\<not> is_translate cb"
  shows "timer_inv (setTimeout cb ms s)"
proof -
  have lt: "\<forall>t\<in>set (timers s). handle t < nextTimer s"
    using assms(1) by (simp add: timer_inv_def list_all_iff)
  then have "nextTimer s \<notin> handle ` set (timers s)" by auto
  moreover have "\<forall>t\<in>set (timers s). handle t < Suc (nextTimer s)"
    using lt by auto
  ultimately show ?thesis
    using assms by (simp add: timer_inv_def setTimeout_def pending_translations_def list_all_iff)
qed

lemma timer_inv_filter:
  "timer_inv s \<Longrightarrow> timer_inv (s\<lparr>timers := filter P (timers s)\<rparr>)"
  by (simp add: timer_inv_def pending_translations_def list_all_iff distinct_map_filter)

lemma timer_inv_clearTimeout: "timer_inv s \<Longrightarrow> timer_inv (clearTimeout h s)"
  by (simp add: clearTimeout_def timer_inv_filter split: option.split)

lemma pending_clearTimeout:
  "timer_inv s \<Longrightarrow> pending_translations (clearTimeout (translateTimer s) s) = []"
  by (cases "translateTimer s")
     (auto simp: timer_inv_def pending_translations_def clearTimeout_def list_all_iff
        filter_empty_conv)

lemma scheduleTranslation_pending:
  assumes "timer_inv s"
  shows "pending_translations (scheduleTranslation text s) =
           [\<lparr>handle = nextTimer s, delay = TRANSLATE_DEBOUNCE_MS, callback = TranslateCb text\<rparr>]"
proof -
  have "nextTimer (clearTimeout (translateTimer s) s) = nextTimer s"
    by (simp add: clearTimeout_def split: option.split)
  with pending_clearTimeout [OF assms] show ?thesis
    by (simp add: scheduleTranslation_def Let_def setTimeout_def pending_translations_def
          is_translate_def)
qed

lemma timer_inv_scheduleTranslation:
  assumes "timer_inv s"
  shows "timer_inv (scheduleTranslation text s)"
proof -
  let ?s1 = "clearTimeout (translateTimer s) s"
  have inv1: "timer_inv ?s1" using assms by (rule timer_inv_clearTimeout)
  have nt: "nextTimer ?s1 = nextTimer s"
    by (simp add: clearTimeout_def split: option.split)
  have lt: "\<forall>t\<in>set (timers ?s1). handle t < nextTimer s"
    using inv1 nt by (simp add: timer_inv_def list_all_iff)
  then have fresh: "nextTimer s \<notin> handle ` set (timers ?s1)" by auto
  have lt': "\<forall>t\<in>set (timers ?s1). handle t < Suc (nextTimer s)"
    using lt by auto
  have dist: "distinct (map handle (timers ?s1))"
    using inv1 by (simp add: timer_inv_def)
  have pend: "filter (\<lambda>t. is_translate (callback t)) (timers ?s1) = []"
    using pending_clearTimeout [OF assms] by (simp add: pending_translations_def)
  show ?thesis
    using fresh lt' dist pend nt
    by (simp add: scheduleTranslation_def Let_def setTimeout_def timer_inv_def
          pending_translations_def list_all_iff is_translate_def)
qed

lemma scheduleTranslation_frame:
  "batches (scheduleTranslation text s) = batches s"
  "lastTranslatedText (scheduleTranslation text s) = lastTranslatedText s"
  "sourceLang (scheduleTranslation text s) = sourceLang s"
  "nextTimer (scheduleTranslation text s) = Suc (nextTimer s)"
  by (simp_all add: scheduleTranslation_def Let_def setTimeout_def clearTimeout_def
        split: option.split)

lemma fold_scheduleTranslation:
  assumes "timer_inv s" and "texts \<noteq> []"
  shows "timer_inv (fold scheduleTranslation texts s) \<and>
         pending_translations (fold scheduleTranslation texts s) =
           [\<lparr>handle = nextTimer s + length texts - 1, delay = TRANSLATE_DEBOUNCE_MS,
             callback = TranslateCb (last texts)\<rparr>] \<and>
         batches (fold scheduleTranslation texts s) = batches s \<and>
         lastTranslatedText (fold scheduleTranslation texts s) = lastTranslatedText s \<and>
         sourceLang (fold scheduleTranslation texts s) = sourceLang s \<and>
         nextTimer (fold scheduleTranslation texts s) = nextTimer s + length texts"
  using assms(2,1)
proof (induction texts rule: rev_nonempty_induct)
  case (single x)
  then show ?case
    by (simp add: timer_inv_scheduleTranslation scheduleTranslation_pending
          scheduleTranslation_frame)
next
  case (snoc x xs)
  then have inv: "timer_inv (fold scheduleTranslation xs s)" by simp
  from snoc show ?case
    by (simp add: timer_inv_scheduleTranslation [OF inv] scheduleTranslation_pending [OF inv]
          scheduleTranslation_frame)
qed

lemma find_handle:
  "distinct (map handle ts) \<Longrightarrow> t \<in> set ts \<Longrightarrow> find (\<lambda>u. handle u = handle t) ts = Some t"
  by (induction ts) (auto simp: image_iff)

lemma fire_pending_translation:
  assumes "timer_inv s"
    and "pending_translations s = [\<lparr>handle = h, delay = d, callback = TranslateCb text\<rparr>]"
  shows "fire h s = translateCallback text (s\<lparr>timers := filter (\<lambda>u. handle u \<noteq> h) (timers s)\<rparr>)"
proof -
  let ?t = "\<lparr>handle = h, delay = d, callback = TranslateCb text\<rparr>"
  have "?t \<in> set (pending_translations s)" using assms(2) by simp
  then have "?t \<in> set (timers s)" by (simp add: pending_translations_def)
  moreover have "distinct (map handle (timers s))" using assms(1) by (simp add: timer_inv_def)
  ultimately have "find (\<lambda>u. handle u = handle ?t) (timers s) = Some ?t"
    by (rule find_handle [rotated])
  then show ?thesis by (simp add: fire_def run_callback_def)
qed

lemma timer_inv_updateTranslationCards [simp]:
  "timer_inv (updateTranslationCards s) = timer_inv s"
  by (simp add: updateTranslationCards_def)

lemma timer_inv_updateMood [simp]: "timer_inv (updateMood s) = timer_inv s"
  by (simp add: updateMood_def Let_def)

lemma timer_inv_clearEmojis [simp]: "timer_inv (clearEmojis s) = timer_inv s"
  by (simp add: clearEmojis_def)

lemma timer_inv_appendSpan [simp]: "timer_inv (appendSpan sp s) = timer_inv s"
  by (simp add: appendSpan_def)

lemma timer_inv_removeOldestEmoji [simp]: "timer_inv (removeOldestEmoji s) = timer_inv s"
  by (simp add: removeOldestEmoji_def split: option.split)

lemma timer_inv_update_span_classes [simp]:
  "timer_inv (update_span_classes i f s) = timer_inv s"
  by (simp add: update_span_classes_def)

lemma timer_inv_addEmojiParticle: "timer_inv s \<Longrightarrow> timer_inv (addEmojiParticle e s)"
  by (simp add: addEmojiParticle_def Let_def timer_inv_setTimeout is_translate_def)

lemma timer_inv_addTextParticle: "timer_inv s \<Longrightarrow> timer_inv (addTextParticle w s)"
  by (simp add: addTextParticle_def Let_def timer_inv_setTimeout is_translate_def)

lemma timer_inv_startListening [simp]: "timer_inv (startListening s) = timer_inv s"
  by (simp add: startListening_def Let_def)

lemma timer_inv_translateCallback [simp]: "timer_inv (translateCallback text s) = timer_inv s"
  by (simp add: translateCallback_def translateAll_def)

lemma timer_inv_run_callback: "timer_inv s \<Longrightarrow> timer_inv (run_callback cb s)"
  by (cases cb)
     (simp_all add: run_callback_def floatCallback_def fadeCallback_def removeCallback_def
        textFadeCallback_def timer_inv_setTimeout is_translate_def)

lemma timer_inv_fire: "timer_inv s \<Longrightarrow> timer_inv (fire h s)"
  by (simp add: fire_def timer_inv_run_callback timer_inv_filter split: option.split)

lemma timer_inv_fold:
  "(\<And>x s. timer_inv s \<Longrightarrow> timer_inv (f x s)) \<Longrightarrow> timer_inv s \<Longrightarrow> timer_inv (fold f xs s)"
  by (induction xs arbitrary: s) simp_all

lemma timer_inv_scanCombo: "timer_inv s \<Longrightarrow> timer_inv (scanCombo D t c s)"
  by (simp add: scanCombo_def timer_inv_addEmojiParticle split: option.split)

lemma timer_inv_scanWord: "timer_inv s \<Longrightarrow> timer_inv (scanWord D w s)"
  by (simp add: scanWord_def Let_def timer_inv_addEmojiParticle timer_inv_addTextParticle
        split: option.split)

lemma timer_inv_processWordsForEmoji:
  "timer_inv s \<Longrightarrow> timer_inv (processWordsForEmoji D text s)"
  by (simp add: processWordsForEmoji_def timer_inv_fold timer_inv_scanWord timer_inv_scanCombo)

lemma timer_inv_handleResult: "timer_inv s \<Longrightarrow> timer_inv (handleResult D rs s)"
  by (simp add: handleResult_def Let_def timer_inv_scheduleTranslation
        timer_inv_processWordsForEmoji)

lemma timer_inv_handleLangChange: "timer_inv s \<Longrightarrow> timer_inv (handleLangChange s)"
  by (simp add: handleLangChange_def Let_def timer_inv_setTimeout is_translate_def)

lemma timer_inv_clearKey: "timer_inv s \<Longrightarrow> timer_inv (clearKey s)"
  by (simp add: clearKey_def Let_def)

lemma timer_inv_settleBatch [simp]: "timer_inv (settleBatch k rs s) = timer_inv s"
  by (simp add: settleBatch_def)

lemma timer_inv_step: "timer_inv s \<Longrightarrow> timer_inv (step D ev s)"
  by (cases ev)
     (simp_all add: step_def timer_inv_handleResult handleError_def stopListening_def
        toggleMic_def timer_inv_handleLangChange timer_inv_clearKey timer_inv_fire)

lemma timer_inv_init: "timer_inv (init_state sel)"
  unfolding init_state_def timer_inv_updateTranslationCards
  by (simp add: timer_inv_def pending_translations_def)

lemma timer_inv_run: "timer_inv s \<Longrightarrow> timer_inv (run D evs s)"
  unfolding run_def by (induction evs arbitrary: s) (simp_all add: timer_inv_step)

lemma batches_frame [simp]:
  "batches (setTimeout cb ms s) = batches s"
  "batches (clearTimeout h s) = batches s"
  "batches (update_span_classes i f s) = batches s"
  "batches (updateTranslationCards s) = batches s"
  "batches (appendSpan sp s) = batches s"
  "batches (removeOldestEmoji s) = batches s"
  "batches (clearEmojis s) = batches s"
  "batches (updateMood s) = batches s"
  by (simp_all add: setTimeout_def clearTimeout_def update_span_classes_def
        updateTranslationCards_def appendSpan_def removeOldestEmoji_def clearEmojis_def
        updateMood_def Let_def split: option.split)

lemma batches_particle_callbacks [simp]:
  "batches (floatCallback i s) = batches s"
  "batches (fadeCallback i s) = batches s"
  "batches (textFadeCallback i s) = batches s"
  "batches (removeCallback i s) = batches s"
  "batches (startListening s) = batches s"
  by (simp_all add: floatCallback_def fadeCallback_def textFadeCallback_def removeCallback_def
        startListening_def Let_def)

lemma batches_addEmojiParticle [simp]: "batches (addEmojiParticle e s) = batches s"
  by (simp add: addEmojiParticle_def Let_def)

lemma batches_addTextParticle [simp]: "batches (addTextParticle w s) = batches s"
  by (simp add: addTextParticle_def Let_def)

lemma run_callback_batches:
  "batches (run_callback cb s) =
     (case cb of
        TranslateCb text \<Rightarrow>
          if text \<noteq> [] \<and> text \<noteq> lastTranslatedText s
          then batches s @ [\<lparr>btext = trimmed text, bfrom = sourceLang s,
                             btargets = targetLangs s, inflight = True\<rparr>]
          else batches s
      | _ \<Rightarrow> batches s)"
  by (cases cb) (simp_all add: run_callback_def translateCallback_def translateAll_def targetLangs_def)

lemma run_callback_lastTranslatedText:
  "lastTranslatedText (run_callback (TranslateCb text) s) =
     (if text \<noteq> [] \<and> text \<noteq> lastTranslatedText s then text else lastTranslatedText s)"
  by (simp add: run_callback_def translateCallback_def translateAll_def)

lemma init_fields:
  "timers (init_state sel) = []"
  "nextTimer (init_state sel) = 0"
  "batches (init_state sel) = []"
  "lastTranslatedText (init_state sel) = []"
  "translateTimer (init_state sel) = None"
  "sourceLang (init_state sel) = ''de''"
  "emojiZone (init_state sel) = []"
  "spans (init_state sel) = []"
  "emojiCount (init_state sel) = 0"
  by (simp_all add: init_state_def updateTranslationCards_def)

section \<open>The scenarios, evaluated\<close>

lemma words_of_abc: "words_of ''abc'' = [''abc'']"
  by code_simp

lemma handleResult_abc:
  "handleResult no_dicts [(''abc'', True)] s =
     scheduleTranslation (finalTranscript s @ ''abc'')
       (updateMood (s\<lparr>finalTranscript := finalTranscript s @ ''abc''\<rparr>))"
  by (simp add: handleResult_def newFinalText_def Let_def processWordsForEmoji_def
        words_of_abc combos_def no_dicts_def scanWord_def updateMood_def)

lemma heard_again_fields:
  "timers heard_again = [\<lparr>handle = 1, delay = 800, callback = TranslateCb ''abc''\<rparr>]"
  "lastTranslatedText heard_again = ''abc''"
  "length (batches heard_again) = 1"
  by (simp_all add: heard_again_def run_def step_def handleResult_abc clearKey_def Let_def
        clearEmojis_def fire_def run_callback_def translateCallback_def translateAll_def
        scheduleTranslation_def setTimeout_def clearTimeout_def updateMood_def init_state_def
        updateTranslationCards_def TRANSLATE_DEBOUNCE_MS_def)

section \<open>The particle pool at its cap\<close>

lemma zone_nonempty_at_cap:
  "zone_inv s \<Longrightarrow> MAX_EMOJIS \<le> emojiCount s \<Longrightarrow> emojiZone s \<noteq> []"
  by (auto simp: zone_inv_def MAX_EMOJIS_def)

lemma addEmojiParticle_at_cap:
  assumes "zone_inv s" and "MAX_EMOJIS \<le> emojiCount s"
  shows "addEmojiParticle e s =
     setTimeout (FadeCb (length (spans s))) EMOJI_FADE_AFTER
       (setTimeout (FloatCb (length (spans s))) 600
          (s\<lparr>spans := spans s @ [\<lparr>classes = [''emoji-particle''], textContent = e\<rparr>],
             emojiZone := tl (emojiZone s) @ [length (spans s)]\<rparr>))"
  using assms zone_nonempty_at_cap [OF assms]
  by (simp add: addEmojiParticle_def Let_def removeOldestEmoji_first appendSpan_def)

lemma particle_frame_setTimeout [simp]:
  "emojiZone (setTimeout cb ms s) = emojiZone s"
  "spans (setTimeout cb ms s) = spans s"
  "emojiCount (setTimeout cb ms s) = emojiCount s"
  "positiveScore (setTimeout cb ms s) = positiveScore s"
  "negativeScore (setTimeout cb ms s) = negativeScore s"
  "zoneClasses (setTimeout cb ms s) = zoneClasses s"
  by (simp_all add: setTimeout_def)

lemma emojiCount_addEmojiParticle_below:
  "emojiCount s < MAX_EMOJIS \<Longrightarrow> emojiCount (addEmojiParticle e s) = emojiCount s + 1"
  by (simp add: addEmojiParticle_def Let_def appendSpan_def)

lemma emojiCount_fold_addEmojiParticle:
  "emojiCount s + int n \<le> MAX_EMOJIS \<Longrightarrow>
   emojiCount (fold addEmojiParticle (replicate n e) s) = emojiCount s + int n"
  by (induction n arbitrary: s) (simp_all add: emojiCount_addEmojiParticle_below)

lemma emojiCount_full_zone: "emojiCount full_zone = 40"
  unfolding full_zone_def
  using emojiCount_fold_addEmojiParticle [of "init_state ''de''" 40 "''+''"]
  by (simp add: init_fields MAX_EMOJIS_def)

lemma zone_inv_full_zone: "zone_inv full_zone"
  unfolding full_zone_def
  by (rule zone_inv_fold) (simp_all add: zone_inv_addEmojiParticle zone_inv_init)

section \<open>The scanner\<close>

lemma words_of_ich_liebe_das: "words_of ''ich liebe das'' = [''ich'', ''liebe'', ''das'']"
  by code_simp

lemma toLowerCase_ich_liebe_das: "toLowerCase ''ich liebe das'' = ''ich liebe das''"
  by code_simp

lemma fold_scanCombo_no_match:
  "list_all (\<lambda>k. \<not> includes_str t k) ks \<Longrightarrow> fold (scanCombo D t) ks s = s"
  by (induction ks arbitrary: s) (simp_all add: scanCombo_def)

lemma scanWord_unmatched_short:
  "length w \<le> 3 \<Longrightarrow> map_of (EMOJI_DICT D) w = None \<Longrightarrow> w \<notin> POSITIVE_WORDS D \<Longrightarrow>
   w \<notin> NEGATIVE_WORDS D \<Longrightarrow> scanWord D w s = s"
  by (simp add: scanWord_def Let_def)

lemma scanWord_positive_emoji:
  "map_of (EMOJI_DICT D) w = Some e \<Longrightarrow> e \<noteq> [] \<Longrightarrow> w \<in> POSITIVE_WORDS D \<Longrightarrow>
   w \<notin> NEGATIVE_WORDS D \<Longrightarrow>
   scanWord D w s = addEmojiParticle e (s\<lparr>positiveScore := positiveScore s + 1\<rparr>)"
  by (simp add: scanWord_def Let_def)

lemma addEmojiParticle_frame [simp]:
  "positiveScore (addEmojiParticle e s) = positiveScore s"
  "negativeScore (addEmojiParticle e s) = negativeScore s"
  "zoneClasses (addEmojiParticle e s) = zoneClasses s"
  "spans (addEmojiParticle e s) = spans s @ [\<lparr>classes = [''emoji-particle''], textContent = e\<rparr>]"
  by (simp_all add: addEmojiParticle_def Let_def appendSpan_def removeOldestEmoji_def
        split: option.split)

lemma last_emojiZone_addEmojiParticle:
  "last (emojiZone (addEmojiParticle e s)) = length (spans s)"
  by (simp add: addEmojiParticle_def Let_def appendSpan_def removeOldestEmoji_def
        split: option.split)

lemma updateMood_frame [simp]:
  "positiveScore (updateMood s) = positiveScore s"
  "negativeScore (updateMood s) = negativeScore s"
  "spans (updateMood s) = spans s"
  "emojiZone (updateMood s) = emojiZone s"
  "emojiCount (updateMood s) = emojiCount s"
  by (simp_all add: updateMood_def Let_def)

lemma updateMood_neutral:
  "positiveScore s - negativeScore s \<le> 2 \<Longrightarrow> - 2 \<le> positiveScore s - negativeScore s \<Longrightarrow>
   ''mood-positive'' \<notin> set (zoneClasses (updateMood s)) \<and>
   ''mood-negative'' \<notin> set (zoneClasses (updateMood s))"
  by (simp add: updateMood_def Let_def class_remove_def)

section \<open>Settling a batch\<close>

lemma showResult_other: "l \<noteq> fst p \<Longrightarrow> showResult p m l = m l"
  by (simp add: showResult_def split: option.split settled.split)

lemma showResult_same:
  "showResult (l, r) m l = (case m l of None \<Rightarrow> None | Some old \<Rightarrow> Some (shown old r))"
  by (simp add: showResult_def shown_def split: option.split settled.split)

lemma showResults_other:
  "l \<notin> set ls \<Longrightarrow> showResults ls rs m l = m l"
  unfolding showResults_def
proof (induction ls arbitrary: rs m)
  case Nil
  then show ?case by simp
next
  case (Cons x xs)
  then show ?case by (cases rs) (simp_all add: showResult_other)
qed

lemma showResults_nth:
  "distinct ls \<Longrightarrow> length rs = length ls \<Longrightarrow> i < length ls \<Longrightarrow>
   showResults ls rs m (ls ! i) =
     (case m (ls ! i) of None \<Rightarrow> None | Some old \<Rightarrow> Some (shown old (rs ! i)))"
proof (induction ls arbitrary: rs m i)
  case Nil
  then show ?case by simp
next
  case (Cons x xs)
  then obtain r rs' where rs: "rs = r # rs'" by (cases rs) auto
  have unfold: "showResults (x # xs) (r # rs') m = showResults xs rs' (showResult (x, r) m)"
    by (simp add: showResults_def)
  show ?case
  proof (cases i)
    case 0
    with Cons.prems show ?thesis
      by (simp add: rs unfold showResults_other showResult_same split: option.split)
  next
    case (Suc j)
    with Cons.prems have j: "j < length xs" and ne: "xs ! j \<noteq> x" by auto
    from Cons.IH [of rs' j "showResult (x, r) m"] Cons.prems j rs
    have "showResults xs rs' (showResult (x, r) m) (xs ! j) =
            (case showResult (x, r) m (xs ! j) of None \<Rightarrow> None
             | Some old \<Rightarrow> Some (shown old (rs' ! j)))"
      by simp
    with ne show ?thesis
      by (simp add: rs unfold Suc showResult_other split: option.split)
  qed
qed

lemma translateText_fulfils:
  "translateText r =
     Fulfilled (case r of
        NetworkError \<Rightarrow> None
      | Http st b \<Rightarrow>
          (case b of
             NotJson \<Rightarrow> None
           | Json rs tt \<Rightarrow>
               if 200 \<le> st \<and> st \<le> 299 \<and> rs = 200 \<and> tt \<noteq> Some [] then tt else None))"
  by (auto simp: translateText_def translateText_try_def split: response.split body.split)

lemma batches_fold:
  "(\<And>x s. batches (f x s) = batches s) \<Longrightarrow> batches (fold f xs s) = batches s"
  by (induction xs arbitrary: s) simp_all

lemma batches_scanCombo [simp]: "batches (scanCombo D t c s) = batches s"
  by (simp add: scanCombo_def split: option.split)

lemma batches_scanWord [simp]: "batches (scanWord D w s) = batches s"
  by (simp add: scanWord_def Let_def split: option.split)

lemma batches_processWordsForEmoji [simp]: "batches (processWordsForEmoji D t s) = batches s"
  by (simp add: processWordsForEmoji_def batches_fold)

lemma batches_handleResult [simp]: "batches (handleResult D rs s) = batches s"
  by (simp add: handleResult_def Let_def scheduleTranslation_frame)

lemma batches_handleLangChange [simp]: "batches (handleLangChange s) = batches s"
  by (simp add: handleLangChange_def Let_def)

lemma batches_clearKey [simp]: "batches (clearKey s) = batches s"
  by (simp add: clearKey_def Let_def)

lemma distinct_targetLangs: "distinct (targetLangs s)"
  by (simp add: targetLangs_def ALL_LANGS_def)

lemma batch_inv_fire: "batch_inv s \<Longrightarrow> batch_inv (fire h s)"
  by (cases "find (\<lambda>t. handle t = h) (timers s)")
     (simp_all add: fire_def batch_inv_def run_callback_batches distinct_targetLangs
        split: callback.split)

lemma batch_inv_settleBatch: "batch_inv s \<Longrightarrow> batch_inv (settleBatch k rs s)"
  by (auto simp: settleBatch_def batch_inv_def list_all_iff set_conv_nth nth_list_update)

lemma batch_inv_step: "batch_inv s \<Longrightarrow> batch_inv (step D ev s)"
proof (cases ev)
  case (Fire h)
  assume "batch_inv s"
  with Fire show ?thesis by (simp add: step_def batch_inv_fire)
next
  case (Settled k rs)
  assume "batch_inv s"
  with Settled show ?thesis by (simp add: step_def batch_inv_settleBatch)
qed (simp_all add: step_def batch_inv_def handleError_def stopListening_def toggleMic_def)

lemma batch_inv_init: "batch_inv (init_state sel)"
  by (simp add: batch_inv_def init_fields)

lemma batch_inv_run: "batch_inv s \<Longrightarrow> batch_inv (run D evs s)"
  unfolding run_def by (induction evs arbitrary: s) (simp_all add: batch_inv_step)

section \<open>The page that heard \<^verbatim>\<open>hallo welt\<close>\<close>

lemma words_of_hallo_welt: "words_of ''hallo welt'' = [''hallo'', ''welt'']"
  by code_simp

lemmas eval_defs =
  run_def step_def handleResult_def newFinalText_def Let_def processWordsForEmoji_def combos_def
  no_dicts_def scanWord_def addTextParticle_def appendSpan_def updateMood_def
  scheduleTranslation_def setTimeout_def clearTimeout_def init_state_def
  updateTranslationCards_def targetLangs_def ALL_LANGS_def MAX_EMOJIS_def class_remove_def
  TRANSLATE_DEBOUNCE_MS_def

lemma heard_hallo_eval:
  "heard_hallo =
     \<lparr>isListening = False, startThrows = False, langSelect = ''de'', sourceLang = ''de'',
      finalTranscript = ''hallo welt'', lastTranslatedText = [], translateTimer = Some 2,
      emojiCount = 2, positiveScore = 0, negativeScore = 0,
      spans = [\<lparr>classes = [''emoji-particle'', ''text-particle''], textContent = ''hallo''\<rparr>,
               \<lparr>classes = [''emoji-particle'', ''text-particle''], textContent = ''welt''\<rparr>],
      emojiZone = [0, 1], zoneClasses = [],
      translationCards = [''en'' \<mapsto> [], ''fr'' \<mapsto> [], ''es'' \<mapsto> []],
      timers = [\<lparr>handle = 0, delay = 10000, callback = TextFadeCb 0\<rparr>,
                \<lparr>handle = 1, delay = 10000, callback = TextFadeCb 1\<rparr>,
                \<lparr>handle = 2, delay = 800, callback = TranslateCb ''hallo welt''\<rparr>],
      nextTimer = 3, batches = []\<rparr>"
  by (simp add: heard_hallo_def eval_defs words_of_hallo_welt)

lemma cleared_early_fields:
  "timers cleared_early = timers heard_hallo"
  "finalTranscript cleared_early = []"
  "lastTranslatedText cleared_early = []"
  "sourceLang cleared_early = ''de''"
  "batches cleared_early = []"
  "translationCards cleared_early ''fr'' = Some []"
  "translationCards cleared_early ''en'' = Some []"
  "translationCards cleared_early ''es'' = Some []"
  by (simp_all add: cleared_early_def step_def clearKey_def Let_def clearEmojis_def
        heard_hallo_eval)

lemma switched_early_fields:
  "timers switched_early = timers heard_hallo"
  "finalTranscript switched_early = []"
  "lastTranslatedText switched_early = []"
  "sourceLang switched_early = ''en''"
  "batches switched_early = []"
  by (simp_all add: switched_early_def step_def handleLangChange_def Let_def clearEmojis_def
        updateTranslationCards_def heard_hallo_eval)

lemma dispatched_hallo_fields:
  "batches dispatched_hallo =
     [\<lparr>btext = ''hallo welt'', bfrom = ''de'', btargets = [''en'', ''fr'', ''es''],
       inflight = True\<rparr>]"
  "translationCards dispatched_hallo = [''en'' \<mapsto> [], ''fr'' \<mapsto> [], ''es'' \<mapsto> []]"
  by (simp_all add: dispatched_hallo_def step_def fire_def run_callback_def
        translateCallback_def translateAll_def trimmed_def targetLangs_def ALL_LANGS_def
        heard_hallo_eval)

section \<open>A window of speech results\<close>

lemma fold_frame: "(\<And>x s. g (f x s) = g s) \<Longrightarrow> g (fold f xs s) = g s"
  by (induction xs arbitrary: s) simp_all

lemma dispatcher_setTimeout:
  "\<not> is_translate cb \<Longrightarrow> dispatcher (setTimeout cb ms s) = dispatcher s"
  by (simp add: dispatcher_def setTimeout_def pending_translations_def)

lemma dispatcher_particles [simp]:
  "dispatcher (appendSpan sp s) = dispatcher s"
  "dispatcher (removeOldestEmoji s) = dispatcher s"
  "dispatcher (updateMood s) = dispatcher s"
  "dispatcher (s\<lparr>positiveScore := p\<rparr>) = dispatcher s"
  "dispatcher (s\<lparr>negativeScore := n\<rparr>) = dispatcher s"
  by (simp_all add: dispatcher_def pending_translations_def appendSpan_def
        removeOldestEmoji_def updateMood_def Let_def split: option.split)

lemma dispatcher_addEmojiParticle [simp]: "dispatcher (addEmojiParticle e s) = dispatcher s"
  by (simp add: addEmojiParticle_def Let_def dispatcher_setTimeout is_translate_def)

lemma dispatcher_addTextParticle [simp]: "dispatcher (addTextParticle w s) = dispatcher s"
  by (simp add: addTextParticle_def Let_def dispatcher_setTimeout is_translate_def)

lemma dispatcher_scanCombo [simp]: "dispatcher (scanCombo D t c s) = dispatcher s"
  by (simp add: scanCombo_def split: option.split)

lemma dispatcher_scanWord [simp]: "dispatcher (scanWord D w s) = dispatcher s"
  by (simp add: scanWord_def Let_def split: option.split)

lemma dispatcher_processWordsForEmoji:
  "dispatcher (processWordsForEmoji D t s) = dispatcher s"
  by (simp add: processWordsForEmoji_def fold_frame [where g = dispatcher])

lemma handleResult_update:
  assumes "timer_inv s" and "newFinalText r \<noteq> []"
  shows "timer_inv (handleResult D r s) \<and>
         batches (handleResult D r s) = batches s \<and>
         lastTranslatedText (handleResult D r s) = lastTranslatedText s \<and>
         sourceLang (handleResult D r s) = sourceLang s \<and>
         finalTranscript (handleResult D r s) = finalTranscript s @ newFinalText r \<and>
         (\<exists>h. pending_translations (handleResult D r s) =
            [\<lparr>handle = h, delay = TRANSLATE_DEBOUNCE_MS,
              callback = TranslateCb (finalTranscript s @ newFinalText r)\<rparr>])"
proof -
  let ?s1 = "s\<lparr>finalTranscript := finalTranscript s @ newFinalText r\<rparr>"
  let ?s2 = "processWordsForEmoji D (newFinalText r) ?s1"
  have inv2: "timer_inv ?s2"
    using assms(1) by (simp add: timer_inv_processWordsForEmoji)
  have "dispatcher ?s2 = dispatcher ?s1"
    by (rule dispatcher_processWordsForEmoji)
  then have fr: "batches ?s2 = batches s" "lastTranslatedText ?s2 = lastTranslatedText s"
    "sourceLang ?s2 = sourceLang s" "finalTranscript ?s2 = finalTranscript s @ newFinalText r"
    by (simp_all add: dispatcher_def)
  have hr: "handleResult D r s = scheduleTranslation (finalTranscript ?s2) ?s2"
    using assms(2) by (simp add: handleResult_def Let_def)
  have fin: "finalTranscript (scheduleTranslation t u) = finalTranscript u" for t u
    by (simp add: scheduleTranslation_def Let_def setTimeout_def clearTimeout_def
          split: option.split)
  show ?thesis
    unfolding hr
    using timer_inv_scheduleTranslation [OF inv2] scheduleTranslation_pending [OF inv2] fr
    by (simp add: scheduleTranslation_frame fin)
qed

lemma fold_handleResult:
  assumes "updates \<noteq> []" and "timer_inv s"
    and "list_all (\<lambda>r. newFinalText r \<noteq> []) updates"
  shows "timer_inv (fold (handleResult D) updates s) \<and>
         batches (fold (handleResult D) updates s) = batches s \<and>
         lastTranslatedText (fold (handleResult D) updates s) = lastTranslatedText s \<and>
         sourceLang (fold (handleResult D) updates s) = sourceLang s \<and>
         finalTranscript (fold (handleResult D) updates s) =
           finalTranscript s @ concat (map newFinalText updates) \<and>
         (\<exists>h. pending_translations (fold (handleResult D) updates s) =
            [\<lparr>handle = h, delay = TRANSLATE_DEBOUNCE_MS,
              callback = TranslateCb (finalTranscript s @ concat (map newFinalText updates))\<rparr>])"
  using assms
proof (induction updates rule: rev_nonempty_induct)
  case (single r)
  then show ?case using handleResult_update [of s r D] by simp
next
  case (snoc r rs)
  let ?s' = "fold (handleResult D) rs s"
  from snoc have IH: "timer_inv ?s'" "batches ?s' = batches s"
    "lastTranslatedText ?s' = lastTranslatedText s" "sourceLang ?s' = sourceLang s"
    "finalTranscript ?s' = finalTranscript s @ concat (map newFinalText rs)"
    by simp_all
  from snoc.prems have r: "newFinalText r \<noteq> []" by simp
  from handleResult_update [OF IH(1) r, of D] IH show ?case by simp
qed

lemma run_Results: "run D (map Result updates) s = fold (handleResult D) updates s"
  unfolding run_def by (induction updates arbitrary: s) (simp_all add: step_def)

section \<open>The claims\<close>

subsection \<open>One batch per debounce window\<close>

text \<open>
  Claim C1, as amended. Let one or more speech results, each with finalized text, arrive
  with no timer elapsing in between (they fall into one debounce window), in a state with
  a well-formed timer table (every reachable state has one, see \<open>timer_inv_run\<close>). Then
  no batch is dispatched during the window, the transcript has grown by the finalized
  texts, exactly one debounce timer is pending afterwards, it has the 800 ms delay and
  holds the final transcript, and when it elapses at most one batch is dispatched:
  exactly one, for the final transcript, if that differs from \<open>lastTranslatedText\<close>, and
  none otherwise.
\<close>

theorem debounce_window_at_most_one_batch:
  assumes "timer_inv s" and "updates \<noteq> []"
    and "list_all (\<lambda>r. newFinalText r \<noteq> []) updates"
  shows "batches (run D (map Result updates) s) = batches s \<and>
         finalTranscript (run D (map Result updates) s) =
           finalTranscript s @ concat (map newFinalText updates) \<and>
         (\<exists>h. pending_translations (run D (map Result updates) s) =
                 [\<lparr>handle = h, delay = TRANSLATE_DEBOUNCE_MS,
                   callback = TranslateCb (finalTranscript (run D (map Result updates) s))\<rparr>] \<and>
               batches (step D (Fire h) (run D (map Result updates) s)) =
                 (if finalTranscript (run D (map Result updates) s) \<noteq> lastTranslatedText s
                  then batches s @
                         [\<lparr>btext = trimmed (finalTranscript (run D (map Result updates) s)),
                           bfrom = sourceLang s, btargets = targetLangs s, inflight = True\<rparr>]
                  else batches s))"
proof -
  let ?s' = "run D (map Result updates) s"
  note f = fold_handleResult [OF assms(2,1,3), of D, folded run_Results]
  from f obtain h where h: "pending_translations ?s' =
      [\<lparr>handle = h, delay = TRANSLATE_DEBOUNCE_MS, callback = TranslateCb (finalTranscript ?s')\<rparr>]"
    by auto
  from f have inv: "timer_inv ?s'" by simp
  have ne: "finalTranscript ?s' \<noteq> []"
    using f assms(2,3) by (cases updates) auto
  have "batches (step D (Fire h) ?s') =
          (if finalTranscript ?s' \<noteq> lastTranslatedText s
           then batches s @ [\<lparr>btext = trimmed (finalTranscript ?s'), bfrom = sourceLang s,
                              btargets = targetLangs s, inflight = True\<rparr>]
           else batches s)"
    using f ne
    by (simp add: step_def fire_pending_translation [OF inv h] translateCallback_def
          translateAll_def targetLangs_def)
  with f h show ?thesis by blast
qed

theorem debounce_window_at_most_one_batch_witness:
  "\<exists>h. pending_translations
          (run no_dicts (map Result [[(''a'', True)], [(''b'', False), (''c'', True)]])
             (init_state ''de'')) =
          [\<lparr>handle = h, delay = TRANSLATE_DEBOUNCE_MS, callback = TranslateCb ''ac''\<rparr>] \<and>
        batches (step no_dicts (Fire h)
          (run no_dicts (map Result [[(''a'', True)], [(''b'', False), (''c'', True)]])
             (init_state ''de''))) =
          [\<lparr>btext = ''ac'', bfrom = ''de'', btargets = [''en'', ''fr'', ''es''], inflight = True\<rparr>]"
proof -
  have u: "[[(''a'', True)], [(''b'', False), (''c'', True)]] \<noteq> []" by simp
  have fin: "list_all (\<lambda>r. newFinalText r \<noteq> [])
               [[(''a'', True)], [(''b'', False), (''c'', True)]]"
    by (simp add: newFinalText_def del: concat_eq_Nil_conv)
  let ?s' = "run no_dicts (map Result [[(''a'', True)], [(''b'', False), (''c'', True)]])
               (init_state ''de'')"
  have f0: "finalTranscript (init_state ''de'') = []"
    by (simp add: init_state_def updateTranslationCards_def)
  note t = debounce_window_at_most_one_batch [OF timer_inv_init u fin, of no_dicts "''de''"]
  from t have ft: "finalTranscript ?s' = ''ac''"
    by (simp add: f0 newFinalText_def)
  from t obtain h where
    h: "pending_translations ?s' =
          [\<lparr>handle = h, delay = TRANSLATE_DEBOUNCE_MS,
            callback = TranslateCb (finalTranscript ?s')\<rparr>]"
    and b: "batches (step no_dicts (Fire h) ?s') =
          (if finalTranscript ?s' \<noteq> lastTranslatedText (init_state ''de'')
           then batches (init_state ''de'') @
                  [\<lparr>btext = trimmed (finalTranscript ?s'), bfrom = sourceLang (init_state ''de''),
                    btargets = targetLangs (init_state ''de''), inflight = True\<rparr>]
           else batches (init_state ''de''))"
    by blast
  from h b show ?thesis
    unfolding ft
    by (intro exI [of _ h]) (simp add: init_fields trimmed_def targetLangs_def ALL_LANGS_def)
qed

text \<open>
  The claim as stated (exactly one batch per window) fails in \<open>heard_again\<close>: the window
  opened by the second \<^verbatim>\<open>abc\<close> holds one update, its timer (handle 1) is pending, and
  when it elapses no batch is dispatched, because the timer that survived the clearing
  had already dispatched \<^verbatim>\<open>abc\<close>.
\<close>

theorem debounce_window_no_batch_counterexample:
  "pending_translations heard_again =
     [\<lparr>handle = 1, delay = TRANSLATE_DEBOUNCE_MS, callback = TranslateCb ''abc''\<rparr>] \<and>
   batches (step no_dicts (Fire 1) heard_again) = batches heard_again"
  by (simp add: pending_translations_def heard_again_fields is_translate_def step_def fire_def
        run_callback_def translateCallback_def TRANSLATE_DEBOUNCE_MS_def)

subsection \<open>The cap of the particle pool\<close>

text \<open>
  Claim C2. After any sequence of events on a fresh page (speech results, which spawn
  emoji and text particles, timers elapsing, clearing, language changes, batches
  settling) the particle counter is at most 40, and so is the number of particles in
  the zone.
\<close>

theorem particle_count_within_cap:
  "emojiCount (run D evs (init_state sel)) \<le> 40 \<and>
   length (emojiZone (run D evs (init_state sel))) \<le> 40"
  using zone_inv_run [OF zone_inv_init, of D evs sel] by (simp add: zone_inv_def MAX_EMOJIS_def)

theorem particle_count_within_cap_witness:
  "emojiCount (run liebe_dicts [Result [(''ich liebe das'', True)], Fire 1, KeyC] (init_state ''de'')) \<le> 40"
  using particle_count_within_cap [of liebe_dicts "[Result [(''ich liebe das'', True)], Fire 1, KeyC]" "''de''"]
  by simp

subsection \<open>Spawning at the cap\<close>

text \<open>
  Claim C3, as amended. In a state with a well-formed particle zone (every reachable
  state has one, see \<open>zone_inv_run\<close>) whose counter is at or above the cap of 40, spawning
  an emoji particle evicts exactly the oldest particle still in the zone (the first
  child) and then appends the new one, so the counter is unchanged; spawning a text
  particle changes nothing: the new particle is dropped and nothing is evicted.
\<close>

theorem spawn_at_cap:
  assumes "zone_inv s" and "MAX_EMOJIS \<le> emojiCount s"
  shows "emojiZone (addEmojiParticle e s) = tl (emojiZone s) @ [length (spans s)] \<and>
         spans (addEmojiParticle e s) =
           spans s @ [\<lparr>classes = [''emoji-particle''], textContent = e\<rparr>] \<and>
         hd (emojiZone s) \<notin> set (emojiZone (addEmojiParticle e s)) \<and>
         emojiCount (addEmojiParticle e s) = emojiCount s \<and>
         addTextParticle w s = s"
proof -
  obtain i z where z: "emojiZone s = i # z"
    using zone_nonempty_at_cap [OF assms] by (cases "emojiZone s") auto
  have "i \<notin> set z" and "i < length (spans s)"
    using assms(1) z by (simp_all add: zone_inv_def)
  then have "hd (emojiZone s) \<notin> set (tl (emojiZone s) @ [length (spans s)])"
    using z by simp
  then show ?thesis
    using assms(2) by (simp add: addEmojiParticle_at_cap [OF assms] addTextParticle_def)
qed

theorem spawn_at_cap_witness:
  "emojiCount (addEmojiParticle ''!'' full_zone) = 40 \<and>
   hd (emojiZone full_zone) \<notin> set (emojiZone (addEmojiParticle ''!'' full_zone)) \<and>
   addTextParticle ''wort'' full_zone = full_zone"
proof -
  have cap: "MAX_EMOJIS \<le> emojiCount full_zone"
    by (simp add: emojiCount_full_zone MAX_EMOJIS_def)
  note t = spawn_at_cap [OF zone_inv_full_zone cap, of "''!''" "''wort''"]
  from t have "emojiCount (addEmojiParticle ''!'' full_zone) = emojiCount full_zone"
    by blast
  then have 1: "emojiCount (addEmojiParticle ''!'' full_zone) = 40"
    by (simp only: emojiCount_full_zone)
  from t have 2: "hd (emojiZone full_zone) \<notin> set (emojiZone (addEmojiParticle ''!'' full_zone))"
    by blast
  from t have 3: "addTextParticle ''wort'' full_zone = full_zone"
    by blast
  from 1 2 3 show ?thesis by blast
qed

text \<open>
  The claim as stated fails for text particles: in \<open>full_zone\<close>, where forty emoji
  particles are active, \<open>addTextParticle\<close> returns at its guard, so no particle is evicted
  and none is created.
\<close>

theorem text_spawn_at_cap_counterexample:
  "MAX_EMOJIS \<le> emojiCount full_zone \<and>
   emojiZone (addTextParticle ''wort'' full_zone) = emojiZone full_zone \<and>
   spans (addTextParticle ''wort'' full_zone) = spans full_zone"
  by (simp add: addTextParticle_def emojiCount_full_zone MAX_EMOJIS_def)

subsection \<open>Resetting the session while a debounce timer is pending\<close>

text \<open>
  Claim C4 (the script does not do this). In \<open>cleared_early\<close> and in \<open>switched_early\<close> the
  session was reset while the debounce timer for \<^verbatim>\<open>hallo welt\<close> was pending. The timer
  is still pending after the reset; when it elapses the stale text is dispatched (after
  the language switch as if it were English), and when that batch settles the
  translation of the stale text is written into the slots that the reset had emptied.
\<close>

theorem stale_debounce_timer_survives_reset:
  "pending_translations cleared_early =
     [\<lparr>handle = 2, delay = TRANSLATE_DEBOUNCE_MS, callback = TranslateCb ''hallo welt''\<rparr>] \<and>
   finalTranscript cleared_early = [] \<and>
   translationCards cleared_early ''fr'' = Some [] \<and>
   batches (step no_dicts (Fire 2) cleared_early) =
     [\<lparr>btext = ''hallo welt'', bfrom = ''de'', btargets = [''en'', ''fr'', ''es''],
       inflight = True\<rparr>] \<and>
   translationCards
     (run no_dicts [Fire 2, Settled 0 en_fails_fr_succeeds] cleared_early) ''fr'' =
     Some ''hello world'' \<and>
   pending_translations switched_early =
     [\<lparr>handle = 2, delay = TRANSLATE_DEBOUNCE_MS, callback = TranslateCb ''hallo welt''\<rparr>] \<and>
   batches (step no_dicts (Fire 2) switched_early) =
     [\<lparr>btext = ''hallo welt'', bfrom = ''en'', btargets = [''de'', ''fr'', ''es''],
       inflight = True\<rparr>]"
  by (simp add: pending_translations_def is_translate_def cleared_early_fields
        switched_early_fields heard_hallo_eval run_def step_def fire_def run_callback_def
        translateCallback_def translateAll_def trimmed_def targetLangs_def ALL_LANGS_def
        settleBatch_def showResults_def showResult_def translateText_def translateText_try_def
        en_fails_fr_succeeds_def TRANSLATE_DEBOUNCE_MS_def)

subsection \<open>The guard of the dispatcher\<close>

text \<open>
  Claim C5. When a timer elapses, a translation batch is dispatched only if the timer is
  the debounce timer and the text it captured is non-empty and differs from
  \<open>lastTranslatedText\<close>, the last dispatched text as the script records it (a reset of the
  session empties that record); the batch then carries that text (its last 200
  characters) and \<open>lastTranslatedText\<close> becomes that text. So no batch is ever dispatched
  for a text equal to the recorded last dispatched one.
\<close>

theorem dispatch_only_for_new_text:
  assumes "batches (fire h s) \<noteq> batches s"
  shows "\<exists>t text. find (\<lambda>u. handle u = h) (timers s) = Some t \<and>
           callback t = TranslateCb text \<and> text \<noteq> [] \<and> text \<noteq> lastTranslatedText s \<and>
           lastTranslatedText (fire h s) = text \<and>
           batches (fire h s) =
             batches s @ [\<lparr>btext = trimmed text, bfrom = sourceLang s,
                            btargets = targetLangs s, inflight = True\<rparr>]"
proof (cases "find (\<lambda>u. handle u = h) (timers s)")
  case None
  with assms show ?thesis by (simp add: fire_def)
next
  case (Some t)
  let ?s = "s\<lparr>timers := filter (\<lambda>u. handle u \<noteq> h) (timers s)\<rparr>"
  have fire: "fire h s = run_callback (callback t) ?s"
    using Some by (simp add: fire_def)
  show ?thesis
  proof (cases "callback t")
    case (TranslateCb tx)
    with assms fire have "tx \<noteq> [] \<and> tx \<noteq> lastTranslatedText s"
      by (auto simp: run_callback_batches split: if_splits)
    with Some TranslateCb fire show ?thesis
      by (simp add: run_callback_batches run_callback_lastTranslatedText targetLangs_def)
  qed (insert assms fire, simp_all add: run_callback_batches)
qed

theorem dispatch_only_for_new_text_witness:
  "batches (fire 0 (scheduleTranslation ''hi'' (init_state ''de''))) \<noteq>
     batches (scheduleTranslation ''hi'' (init_state ''de'')) \<and>
   lastTranslatedText (fire 0 (scheduleTranslation ''hi'' (init_state ''de''))) = ''hi''"
proof -
  have ne: "batches (fire 0 (scheduleTranslation ''hi'' (init_state ''de''))) \<noteq>
     batches (scheduleTranslation ''hi'' (init_state ''de''))"
    by (simp add: fire_def scheduleTranslation_def Let_def clearTimeout_def setTimeout_def
          init_fields run_callback_batches)
  from dispatch_only_for_new_text [OF ne] ne show ?thesis
    by (auto simp: scheduleTranslation_def Let_def clearTimeout_def setTimeout_def init_fields)
qed

subsection \<open>Settling a batch, target by target\<close>

text \<open>
  Claim C6. When the all-settled join of a batch completes, with one answer per target
  (in a state whose batches have pairwise different targets, as every reachable state
  has, see \<open>batch_inv_run\<close>): the slot of each target shows the translated string if its
  own request was answered 2xx with \<open>responseStatus\<close> 200 and a non-empty
  \<open>translatedText\<close>, and otherwise keeps what it showed; a target without a slot gets
  none; every slot that is no target of the batch is unchanged. No request ends
  rejected: a failure of any kind settles as fulfilled with no value, so nothing is
  thrown out of the batch.
\<close>

theorem batch_settles_per_target:
  assumes "batch_inv s" and "k < length (batches s)" and "inflight (batches s ! k)"
    and "length rs = length (btargets (batches s ! k))"
  shows "(\<forall>i < length rs.
            translationCards (settleBatch k rs s) (btargets (batches s ! k) ! i) =
              (case translationCards s (btargets (batches s ! k) ! i) of
                 None \<Rightarrow> None
               | Some old \<Rightarrow> Some (shown old (translateText (rs ! i))))) \<and>
         (\<forall>l. l \<notin> set (btargets (batches s ! k)) \<longrightarrow>
            translationCards (settleBatch k rs s) l = translationCards s l) \<and>
         (\<forall>r. translateText r =
            Fulfilled (case r of
               NetworkError \<Rightarrow> None
             | Http st b \<Rightarrow>
                 (case b of
                    NotJson \<Rightarrow> None
                  | Json js tt \<Rightarrow>
                      if 200 \<le> st \<and> st \<le> 299 \<and> js = 200 \<and> tt \<noteq> Some [] then tt else None)))"
proof -
  let ?ls = "btargets (batches s ! k)"
  have d: "distinct ?ls"
    using assms(1,2) by (simp add: batch_inv_def list_all_iff)
  have cards: "translationCards (settleBatch k rs s) =
                 showResults ?ls (map translateText rs) (translationCards s)"
    using assms(2-4) by (simp add: settleBatch_def)
  have "translationCards (settleBatch k rs s) (?ls ! i) =
          (case translationCards s (?ls ! i) of None \<Rightarrow> None
           | Some old \<Rightarrow> Some (shown old (translateText (rs ! i))))"
    if "i < length rs" for i
    using that assms(4) showResults_nth [OF d, of "map translateText rs" i "translationCards s"]
    by (simp add: cards split: option.split)
  then show ?thesis
    by (simp add: cards showResults_other translateText_fulfils)
qed

theorem batch_settles_per_target_witness:
  "translationCards (settleBatch 0 en_fails_fr_succeeds dispatched_hallo) ''en'' = Some [] \<and>
   translationCards (settleBatch 0 en_fails_fr_succeeds dispatched_hallo) ''fr'' = Some ''hello world'' \<and>
   translationCards (settleBatch 0 en_fails_fr_succeeds dispatched_hallo) ''es'' = Some [] \<and>
   translationCards (settleBatch 0 en_fails_fr_succeeds dispatched_hallo) ''de'' = None"
proof -
  have inv: "batch_inv dispatched_hallo"
    unfolding dispatched_hallo_def heard_hallo_def
    by (intro batch_inv_step batch_inv_run batch_inv_init)
  have k: "0 < length (batches dispatched_hallo)"
    and fl: "inflight (batches dispatched_hallo ! 0)"
    and len: "length en_fails_fr_succeeds = length (btargets (batches dispatched_hallo ! 0))"
    by (simp_all add: dispatched_hallo_fields en_fails_fr_succeeds_def)
  note t = batch_settles_per_target [OF inv k fl len]
  from t have slots: "\<forall>i < length en_fails_fr_succeeds.
      translationCards (settleBatch 0 en_fails_fr_succeeds dispatched_hallo)
        (btargets (batches dispatched_hallo ! 0) ! i) =
      (case translationCards dispatched_hallo (btargets (batches dispatched_hallo ! 0) ! i) of
         None \<Rightarrow> None
       | Some old \<Rightarrow> Some (shown old (translateText (en_fails_fr_succeeds ! i))))"
    by blast
  from t have rest: "\<forall>l. l \<notin> set (btargets (batches dispatched_hallo ! 0)) \<longrightarrow>
      translationCards (settleBatch 0 en_fails_fr_succeeds dispatched_hallo) l =
      translationCards dispatched_hallo l"
    by blast
  from slots [rule_format, of 0] slots [rule_format, of 1] slots [rule_format, of 2]
    rest [rule_format, of "''de''"]
  show ?thesis
    by (simp add: dispatched_hallo_fields en_fails_fr_succeeds_def shown_def translateText_def
          translateText_try_def)
qed

subsection \<open>Timers of removed particles\<close>

text \<open>
  Claim C7. When a particle timer (float, fade, remove, or the fade of a text particle)
  elapses for a span that is no longer in the particle zone, because it was evicted or
  the zone was cleared, the callback changes nothing: the counter is not decremented
  (it stays the number of spans in the zone, so it is never negative) and the classes
  of the removed span are not touched.
\<close>

theorem stale_particle_timer_noop:
  assumes "zone_inv s" and "particle_of cb = Some i" and "i \<notin> set (emojiZone s)"
  shows "run_callback cb s = s \<and> 0 \<le> emojiCount (run_callback cb s)"
proof -
  have "run_callback cb s = s"
    using assms(2,3)
    by (cases cb)
       (simp_all add: particle_of_def run_callback_def floatCallback_def fadeCallback_def
          removeCallback_def textFadeCallback_def attached_def)
  moreover have "0 \<le> emojiCount s"
    using assms(1) by (simp add: zone_inv_def)
  ultimately show ?thesis by simp
qed

theorem stale_particle_timer_noop_witness:
  "run_callback (RemoveCb 0) (clearKey (addEmojiParticle ''+'' (init_state ''de''))) =
     clearKey (addEmojiParticle ''+'' (init_state ''de'')) \<and>
   emojiCount (run_callback (RemoveCb 0) (clearKey (addEmojiParticle ''+'' (init_state ''de'')))) = 0"
proof -
  let ?s = "clearKey (addEmojiParticle ''+'' (init_state ''de''))"
  have z: "emojiZone ?s = []" and c: "emojiCount ?s = 0"
    by (simp_all add: clearKey_def Let_def clearEmojis_def)
  have i: "0 \<notin> set (emojiZone ?s)" by (simp only: z) simp
  have p: "particle_of (RemoveCb 0) = Some 0" by (simp add: particle_of_def)
  from stale_particle_timer_noop [OF zone_inv_clearKey p i] c show ?thesis by simp
qed

subsection \<open>Scanning \<^verbatim>\<open>ich liebe das\<close>\<close>

text \<open>
  Claim C8. Let \<^verbatim>\<open>liebe\<close> be a positive word, not a negative one, with a non-empty emoji
  in the dictionary; let \<^verbatim>\<open>ich\<close> and \<^verbatim>\<open>das\<close> be in no dictionary, and let no phrase key
  of the emoji dictionary occur in the text. Then scanning \<^verbatim>\<open>ich liebe das\<close> creates
  exactly one particle (the emoji of \<^verbatim>\<open>liebe\<close>, appended to the zone), adds exactly 1
  to \<open>positiveScore\<close>, leaves \<open>negativeScore\<close> alone and, from a balanced score (net
  sentiment 1 afterwards), leaves the zone with neither mood class.
\<close>

theorem scan_ich_liebe_das:
  assumes "map_of (EMOJI_DICT D) ''liebe'' = Some e" and "e \<noteq> []"
    and "''liebe'' \<in> POSITIVE_WORDS D" and "''liebe'' \<notin> NEGATIVE_WORDS D"
    and "map_of (EMOJI_DICT D) ''ich'' = None" and "map_of (EMOJI_DICT D) ''das'' = None"
    and "''ich'' \<notin> POSITIVE_WORDS D \<union> NEGATIVE_WORDS D"
    and "''das'' \<notin> POSITIVE_WORDS D \<union> NEGATIVE_WORDS D"
    and "list_all (\<lambda>k. \<not> includes_str ''ich liebe das'' k) (combos D)"
    and "positiveScore s = negativeScore s"
  shows "spans (processWordsForEmoji D ''ich liebe das'' s) =
           spans s @ [\<lparr>classes = [''emoji-particle''], textContent = e\<rparr>] \<and>
         last (emojiZone (processWordsForEmoji D ''ich liebe das'' s)) = length (spans s) \<and>
         positiveScore (processWordsForEmoji D ''ich liebe das'' s) = positiveScore s + 1 \<and>
         negativeScore (processWordsForEmoji D ''ich liebe das'' s) = negativeScore s \<and>
         ''mood-positive'' \<notin> set (zoneClasses (processWordsForEmoji D ''ich liebe das'' s)) \<and>
         ''mood-negative'' \<notin> set (zoneClasses (processWordsForEmoji D ''ich liebe das'' s))"
proof -
  let ?s1 = "addEmojiParticle e (s\<lparr>positiveScore := positiveScore s + 1\<rparr>)"
  have ich: "scanWord D ''ich'' s = s" and das: "scanWord D ''das'' ?s1 = ?s1"
    using assms(5-8) by (simp_all add: scanWord_unmatched_short)
  have liebe: "scanWord D ''liebe'' s = ?s1"
    using assms(1-4) by (rule scanWord_positive_emoji)
  have scan: "processWordsForEmoji D ''ich liebe das'' s = updateMood ?s1"
    using assms(9)
    by (simp add: processWordsForEmoji_def words_of_ich_liebe_das toLowerCase_ich_liebe_das
          fold_scanCombo_no_match ich liebe das)
  have mood: "''mood-positive'' \<notin> set (zoneClasses (updateMood ?s1)) \<and>
              ''mood-negative'' \<notin> set (zoneClasses (updateMood ?s1))"
    using assms(10) by (intro updateMood_neutral) simp_all
  show ?thesis
    unfolding scan using mood by (simp add: last_emojiZone_addEmojiParticle)
qed

theorem scan_ich_liebe_das_witness:
  "spans (processWordsForEmoji liebe_dicts ''ich liebe das'' (init_state ''de'')) =
     [\<lparr>classes = [''emoji-particle''], textContent = ''<3''\<rparr>] \<and>
   positiveScore (processWordsForEmoji liebe_dicts ''ich liebe das'' (init_state ''de'')) = 1 \<and>
   negativeScore (processWordsForEmoji liebe_dicts ''ich liebe das'' (init_state ''de'')) = 0 \<and>
   ''mood-positive'' \<notin> set (zoneClasses (processWordsForEmoji liebe_dicts ''ich liebe das'' (init_state ''de'')))"
proof -
  have sc: "positiveScore (init_state ''de'') = negativeScore (init_state ''de'')"
    "positiveScore (init_state ''de'') = 0" "negativeScore (init_state ''de'') = 0"
    by (simp_all add: init_state_def updateTranslationCards_def)
  have cs: "list_all (\<lambda>k. \<not> includes_str ''ich liebe das'' k) (combos liebe_dicts)"
    by (simp add: combos_def liebe_dicts_def)
  from scan_ich_liebe_das [of liebe_dicts "''<3''" "init_state ''de''", OF _ _ _ _ _ _ _ _ cs sc(1)]
  show ?thesis
    by (simp add: liebe_dicts_def init_fields sc)
qed

subsection \<open>The counter and the zone\<close>

text \<open>
  Claim C9. After any sequence of events on a fresh page the particle counter equals
  the number of particle elements in the particle zone.
\<close>

theorem particle_count_matches_zone:
  "emojiCount (run D evs (init_state sel)) = int (length (emojiZone (run D evs (init_state sel))))"
  using zone_inv_run [OF zone_inv_init, of D evs sel] by (simp add: zone_inv_def)

theorem particle_count_matches_zone_witness:
  "emojiCount (run liebe_dicts [Result [(''ich liebe das'', True)], Fire 0] (init_state ''de'')) =
     int (length (emojiZone (run liebe_dicts [Result [(''ich liebe das'', True)], Fire 0] (init_state ''de''))))"
  by (rule particle_count_matches_zone)

subsection \<open>Short tokens without an emoji\<close>

text \<open>
  Claim C10. A scanned token of length 2 or 3 that has no entry in the emoji dictionary
  spawns no particle of any kind (no span is created, the zone, the counter and the
  timers are unchanged); it still adds one to \<open>positiveScore\<close> if it is a positive word
  and one to \<open>negativeScore\<close> if it is a negative word.
\<close>

theorem short_unmapped_token_spawns_nothing:
  assumes "length w = 2 \<or> length w = 3" and "map_of (EMOJI_DICT D) w = None"
  shows "scanWord D w s =
           s\<lparr>positiveScore := positiveScore s + (if w \<in> POSITIVE_WORDS D then 1 else 0),
             negativeScore := negativeScore s + (if w \<in> NEGATIVE_WORDS D then 1 else 0)\<rparr>"
  using assms by (auto simp: scanWord_def Let_def)

theorem short_unmapped_token_spawns_nothing_witness:
  "scanWord liebe_dicts ''gut'' (init_state ''de'') =
     (init_state ''de'')\<lparr>positiveScore := 1, negativeScore := 0\<rparr>"
proof -
  have l: "length ''gut'' = 2 \<or> length ''gut'' = 3" by simp
  have m: "map_of (EMOJI_DICT liebe_dicts) ''gut'' = None" by (simp add: liebe_dicts_def)
  from short_unmapped_token_spawns_nothing [OF l m, of "init_state ''de''"]
  show ?thesis
    by (simp add: liebe_dicts_def init_state_def updateTranslationCards_def)
qed

end
